theory Spec2Isabelle
  imports Complex_Main "HOL-Library.Multiset"
begin

section \<open>GitHub Receipt: the statistics aggregator and the page state\<close>

text \<open>
  The repository is a single page (\<^verbatim>\<open>src/app/page.tsx\<close>; the files \<^verbatim>\<open>part_000\<close> and
  \<^verbatim>\<open>part_001\<close> are two further versions of that page). \<^verbatim>\<open>getGitHubStats\<close> fetches a user
  and the user's repositories and derives the figures of the receipt; \<^verbatim>\<open>handleSubmit\<close>
  stores the outcome in the page state; \<^verbatim>\<open>handleDownload\<close> names the exported image and the
  JSX of \<^verbatim>\<open>Home\<close> prints the figures.

  The embedding follows \<^verbatim>\<open>part_001\<close> for \<^verbatim>\<open>getGitHubStats\<close> (it computes every statistic the
  other two versions compute, the commit search of \<^verbatim>\<open>page.tsx\<close> apart) and \<^verbatim>\<open>page.tsx\<close> /
  \<^verbatim>\<open>part_000\<close> for \<^verbatim>\<open>handleDownload\<close>.

  Conventions. The numbers the page adds and multiplies (stars, forks, sizes, followers)
  are IEEE doubles with an integer value, an infinity or \<^verbatim>\<open>NaN\<close>: the type \<open>number\<close>
  below, whose sum and product round as the doubles do. Time values, array indices and
  the counts of array elements are integers far below \<open>2^53\<close> (an array has fewer than
  \<open>2^32\<close> elements) and are of type \<^typ>\<open>int\<close>. Elsewhere \<^verbatim>\<open>undefined\<close>, \<^verbatim>\<open>null\<close> and
  \<^verbatim>\<open>NaN\<close> are \<^term>\<open>None\<close>. Everything the function reads from
  outside (the two HTTP replies, the clock, the time zone, the parser of date strings, the
  three random draws, the order the engine's sort leaves when it is free to choose) is a
  field of the record \<open>runtime\<close>.
\<close>

subsection \<open>Records of the API\<close>

text \<open>
  The interfaces \<^verbatim>\<open>GitHubRepo\<close> and \<^verbatim>\<open>GitHubUser\<close>. Both have a \<^verbatim>\<open>name\<close> and a
  \<^verbatim>\<open>created_at\<close>, and \<^verbatim>\<open>size\<close> is a constant of HOL, so these fields carry a prefix.
\<close>

record GitHubRepo =
  repo_name :: string
  stargazers_count :: int
  forks_count :: int
  repo_size :: int
  language :: "string option"
  pushed_at :: string
  repo_created_at :: string

record GitHubUser =
  login :: string
  user_name :: "string option"
  followers :: int
  following :: int
  public_repos :: int
  user_created_at :: string
  location :: "string option"
  public_gists :: int

subsection \<open>HTTP replies and errors\<close>

text \<open>
  \<^verbatim>\<open>fetch\<close> either rejects (the network failed) or resolves to a response that carries
  the flag \<^verbatim>\<open>ok\<close> (the status is 2xx) and a body. \<^verbatim>\<open>response.json()\<close> rejects with a
  \<^verbatim>\<open>SyntaxError\<close> on a body that is not JSON. The cast \<^verbatim>\<open>as GitHubRepo[]\<close> checks nothing:
  a body that is JSON but not an array has no method \<^verbatim>\<open>reduce\<close>, and the first call of it
  throws a \<^verbatim>\<open>TypeError\<close>.
\<close>

datatype 'a json_body = Malformed | Parsed 'a

datatype repos_json = ReposArray "GitHubRepo list" | NotAnArray

datatype 'a fetch_result = Rejected | Response bool "'a json_body"

datatype js_error = NetworkError | Error string | SyntaxError | TypeError

subsection \<open>Numbers\<close>

text \<open>
  A double with an integer value is \<open>Num n\<close>. The sign of zero is not kept (the page only
  prints its numbers).
\<close>

datatype number = Num int | PosInfinity | NegInfinity | NaN

text \<open>The number of binary digits of a positive integer \<open>n\<close>.\<close>

function bit_length :: "int \<Rightarrow> nat" where
  "bit_length n = (if n \<le> 0 then 0 else Suc (bit_length (n div 2)))"
  by pat_completeness auto
termination
  by (relation "measure nat") auto

text \<open>
  The integer with at most 53 significant binary digits that is nearest to \<open>n\<close>, the one
  with the even significand when two are equally near (round to nearest, ties to even).
\<close>

definition round53 :: "int \<Rightarrow> int" where
  "round53 n =
     (let m = \<bar>n\<bar>;
          e = bit_length m - 53;
          q = m div 2 ^ e;
          r = m mod 2 ^ e;
          q' = (if 2 ^ e < 2 * r \<or> (2 * r = 2 ^ e \<and> odd q) then q + 1 else q)
      in sgn n * (q' * 2 ^ e))"

text \<open>
  The double nearest to the integer \<open>n\<close>: what an exact result \<open>n\<close> of an addition or a
  multiplication is rounded to, and what the parser of JSON makes of the integer \<open>n\<close>
  written in a reply. From \<open>2^1024\<close> on the rounded value is an infinity.
\<close>

definition as_double :: "int \<Rightarrow> number" where
  "as_double n =
     (let v = round53 n
      in if 2 ^ 1024 \<le> \<bar>v\<bar> then (if 0 < n then PosInfinity else NegInfinity) else Num v)"

text \<open>\<^verbatim>\<open>x + y\<close> on numbers.\<close>

fun num_add :: "number \<Rightarrow> number \<Rightarrow> number" where
  "num_add (Num a) (Num b) = as_double (a + b)"
| "num_add NaN y = NaN"
| "num_add x NaN = NaN"
| "num_add PosInfinity NegInfinity = NaN"
| "num_add NegInfinity PosInfinity = NaN"
| "num_add PosInfinity y = PosInfinity"
| "num_add x PosInfinity = PosInfinity"
| "num_add NegInfinity y = NegInfinity"
| "num_add x NegInfinity = NegInfinity"

definition num_negative :: "number \<Rightarrow> bool" where
  "num_negative x = (case x of Num a \<Rightarrow> a < 0 | NegInfinity \<Rightarrow> True | _ \<Rightarrow> False)"

text \<open>\<^verbatim>\<open>x * y\<close> on numbers: an infinity times zero is \<^verbatim>\<open>NaN\<close>.\<close>

fun num_mul :: "number \<Rightarrow> number \<Rightarrow> number" where
  "num_mul (Num a) (Num b) = as_double (a * b)"
| "num_mul NaN y = NaN"
| "num_mul x NaN = NaN"
| "num_mul x y =
     (if x = Num 0 \<or> y = Num 0 then NaN
      else if num_negative x = num_negative y then PosInfinity else NegInfinity)"

text \<open>
  A value stored in the object \<^verbatim>\<open>langCount\<close>: a count, or a string that is no numeral
  (see \<open>bump_lang\<close>).
\<close>

datatype count_value = Count int | Text

subsection \<open>The runtime\<close>

text \<open>
  \<open>now\<close> is the time value of \<^verbatim>\<open>new Date()\<close> in milliseconds since the epoch.
  \<open>LocalTZA t isUTC\<close> is the offset of the host's time zone in milliseconds (ECMA-262,
  LocalTZA): at the UTC instant \<open>t\<close> when \<open>isUTC\<close>, at the local time \<open>t\<close> otherwise.
  \<open>Date_parse\<close> is \<^verbatim>\<open>Date.parse\<close>, \<^term>\<open>None\<close> for a string it does not read (an invalid
  date). \<open>random_fortune\<close> and \<open>random_cashier\<close> are the values of the first two calls of
  \<^verbatim>\<open>Math.random()\<close> (their product with the length of the list is taken exactly, without
  the rounding of the double product). The third call is only printed in radix 36, and \<open>random_coupon\<close> is
  the fraction digits of that print (characters of \<^verbatim>\<open>0-9a-z\<close>): empty for the draw 0,
  which prints as \<^verbatim>\<open>"0"\<close>, and not empty for any other draw, which prints as \<^verbatim>\<open>"0."\<close>
  and its digits. \<open>inconsistent_sort\<close> is the order in which \<^verbatim>\<open>Array.prototype.sort\<close> leaves
  the entries of \<^verbatim>\<open>langCount\<close> when the comparison function is not consistent on them:
  ECMA-262 leaves that order to the implementation.
\<close>

record runtime =
  fetch_user :: "string \<Rightarrow> GitHubUser fetch_result"
  fetch_repos :: "string \<Rightarrow> repos_json fetch_result"
  now :: int
  LocalTZA :: "int \<Rightarrow> bool \<Rightarrow> int"
  Date_parse :: "string \<Rightarrow> int option"
  random_fortune :: real
  random_cashier :: real
  random_coupon :: string
  inconsistent_sort :: "(string \<times> count_value) list \<Rightarrow> (string \<times> count_value) list"

subsection \<open>Dates (ECMA-262, Date objects)\<close>

definition msPerDay :: int where
  "msPerDay = 86400000"

definition Day :: "int \<Rightarrow> int" where
  "Day t = t div msPerDay"

definition TimeWithinDay :: "int \<Rightarrow> int" where
  "TimeWithinDay t = t mod msPerDay"

definition DaysInYear :: "int \<Rightarrow> int" where
  "DaysInYear y =
     (if y mod 4 \<noteq> 0 then 365 else if y mod 100 \<noteq> 0 then 366
      else if y mod 400 \<noteq> 0 then 365 else 366)"

definition DayFromYear :: "int \<Rightarrow> int" where
  "DayFromYear y =
     365 * (y - 1970) + (y - 1969) div 4 - (y - 1901) div 100 + (y - 1601) div 400"

text \<open>
  \<open>YearFromTime t\<close> is the largest year \<open>y\<close> with \<open>DayFromYear y \<le> Day t\<close>. It is computed
  from the mean length of a Gregorian year (146097 days in 400 years), which is off by one
  year at most, and then adjusted.
\<close>

definition YearFromTime :: "int \<Rightarrow> int" where
  "YearFromTime t =
     (let d = Day t; y = 1970 + (400 * d) div 146097
      in if DayFromYear (y + 1) \<le> d then y + 1
         else if d < DayFromYear y then y - 1 else y)"

definition InLeapYear :: "int \<Rightarrow> int" where
  "InLeapYear t = (if DaysInYear (YearFromTime t) = 366 then 1 else 0)"

definition DayWithinYear :: "int \<Rightarrow> int" where
  "DayWithinYear t = Day t - DayFromYear (YearFromTime t)"

definition MonthFromTime :: "int \<Rightarrow> int" where
  "MonthFromTime t =
     (let d = DayWithinYear t; l = InLeapYear t
      in if d < 31 then 0
         else if d < 59 + l then 1
         else if d < 90 + l then 2
         else if d < 120 + l then 3
         else if d < 151 + l then 4
         else if d < 181 + l then 5
         else if d < 212 + l then 6
         else if d < 243 + l then 7
         else if d < 273 + l then 8
         else if d < 304 + l then 9
         else if d < 334 + l then 10
         else 11)"

text \<open>The number of days of a year that lie before its month \<open>m\<close> (0 is January).\<close>

definition DaysBeforeMonth :: "int \<Rightarrow> int \<Rightarrow> int" where
  "DaysBeforeMonth m l =
     (if m = 0 then 0
      else if m = 1 then 31
      else if m = 2 then 59 + l
      else if m = 3 then 90 + l
      else if m = 4 then 120 + l
      else if m = 5 then 151 + l
      else if m = 6 then 181 + l
      else if m = 7 then 212 + l
      else if m = 8 then 243 + l
      else if m = 9 then 273 + l
      else if m = 10 then 304 + l
      else 334 + l)"

definition DateFromTime :: "int \<Rightarrow> int" where
  "DateFromTime t =
     DayWithinYear t - DaysBeforeMonth (MonthFromTime t) (InLeapYear t) + 1"

definition WeekDay :: "int \<Rightarrow> int" where
  "WeekDay t = (Day t + 4) mod 7"

definition LocalTime :: "runtime \<Rightarrow> int \<Rightarrow> int" where
  "LocalTime env t = t + LocalTZA env t True"

definition UTC :: "runtime \<Rightarrow> int \<Rightarrow> int" where
  "UTC env t = t - LocalTZA env t False"

text \<open>
  \<open>MakeDay year month date\<close>: the day number of the first day of the month, found from
  the year and the month as the calendar functions above count them, plus \<open>date - 1\<close>.
\<close>

definition MakeDay :: "int \<Rightarrow> int \<Rightarrow> int \<Rightarrow> int" where
  "MakeDay year month date =
     (let ym = year + month div 12; mn = month mod 12
      in DayFromYear ym + DaysBeforeMonth mn (if DaysInYear ym = 366 then 1 else 0)
         + date - 1)"

definition MakeDate :: "int \<Rightarrow> int \<Rightarrow> int" where
  "MakeDate day time = day * msPerDay + time"

definition TimeClip :: "int \<Rightarrow> int option" where
  "TimeClip t = (if \<bar>t\<bar> > 8640000000000000 then None else Some t)"

text \<open>
  The methods of \<^verbatim>\<open>Date.prototype\<close> the page calls. A date object is its time value,
  \<^term>\<open>None\<close> for an invalid date.
\<close>

definition getDate :: "runtime \<Rightarrow> int \<Rightarrow> int" where
  "getDate env t = DateFromTime (LocalTime env t)"

definition setDate :: "runtime \<Rightarrow> int \<Rightarrow> int \<Rightarrow> int option" where
  "setDate env t date =
     (let lt = LocalTime env t;
          newDate = MakeDate (MakeDay (YearFromTime lt) (MonthFromTime lt) date)
                             (TimeWithinDay lt)
      in TimeClip (UTC env newDate))"

definition getDay :: "runtime \<Rightarrow> int option \<Rightarrow> int option" where
  "getDay env tv = (case tv of None \<Rightarrow> None | Some t \<Rightarrow> Some (WeekDay (LocalTime env t)))"

text \<open>\<^verbatim>\<open>a > b\<close> on two date objects compares their time values; with a \<^verbatim>\<open>NaN\<close> it is false.\<close>

definition Date_gt :: "int option \<Rightarrow> int option \<Rightarrow> bool" where
  "Date_gt a b = (case (a, b) of (Some x, Some y) \<Rightarrow> y < x | _ \<Rightarrow> False)"

subsection \<open>Arrays, numbers and strings of the language\<close>

text \<open>\<^verbatim>\<open>xs[i]\<close>: \<^verbatim>\<open>undefined\<close> outside the array.\<close>

definition array_at :: "'a list \<Rightarrow> int \<Rightarrow> 'a option" where
  "array_at xs i = (if 0 \<le> i \<and> i < int (length xs) then Some (xs ! nat i) else None)"

text \<open>\<^verbatim>\<open>Math.max(...xs)\<close>: \<^verbatim>\<open>-Infinity\<close>, here \<^term>\<open>None\<close>, when \<open>xs\<close> is empty.\<close>

fun Math_max :: "int list \<Rightarrow> int option" where
  "Math_max [] = None"
| "Math_max (x # xs) = Some (foldl max x xs)"

text \<open>\<^verbatim>\<open>xs.indexOf(v)\<close>: the first index that holds \<open>v\<close>, \<open>-1\<close> when none does.\<close>

fun indexOf_from :: "int list \<Rightarrow> int option \<Rightarrow> int \<Rightarrow> int" where
  "indexOf_from [] v i = - 1"
| "indexOf_from (x # xs) v i = (if Some x = v then i else indexOf_from xs v (i + 1))"

definition indexOf :: "int list \<Rightarrow> int option \<Rightarrow> int" where
  "indexOf xs v = indexOf_from xs v 0"

definition Math_floor :: "real \<Rightarrow> int" where
  "Math_floor x = \<lfloor>x\<rfloor>"

text \<open>\<^verbatim>\<open>Math.round\<close> rounds a half towards \<open>+\<infinity>\<close>.\<close>

definition Math_round :: "real \<Rightarrow> int" where
  "Math_round x = \<lfloor>x + 1 / 2\<rfloor>"

fun join :: "string \<Rightarrow> string list \<Rightarrow> string" where
  "join sep [] = []"
| "join sep [x] = x"
| "join sep (x # y # ys) = x @ sep @ join sep (y # ys)"

text \<open>\<^verbatim>\<open>s.substring(a, b)\<close>: both ends are clamped to the string and swapped when \<open>b < a\<close>.\<close>

definition substring :: "string \<Rightarrow> nat \<Rightarrow> nat \<Rightarrow> string" where
  "substring s a b =
     (let n = length s; a' = min a n; b' = min b n; lo = min a' b'; hi = max a' b'
      in take (hi - lo) (drop lo s))"

text \<open>
  \<^verbatim>\<open>toUpperCase\<close> on ASCII text, which is all a print in radix 36 holds: the letters
  \<^verbatim>\<open>a\<close> to \<^verbatim>\<open>z\<close> (codes 97 to 122) move down by 32, every other character stays.
\<close>

definition upper_char :: "char \<Rightarrow> char" where
  "upper_char c =
     (let n = (of_char c :: nat) in if 97 \<le> n \<and> n \<le> 122 then char_of (n - 32) else c)"

definition toUpperCase :: "string \<Rightarrow> string" where
  "toUpperCase s = map upper_char s"

text \<open>
  \<^verbatim>\<open>x.toString(36)\<close> for a number \<open>0 \<le> x < 1\<close>, given the fraction digits of its print
  (see \<open>random_coupon\<close>): ECMA-262 prints zero as \<^verbatim>\<open>"0"\<close> in every radix.
\<close>

definition toString36 :: "string \<Rightarrow> string" where
  "toString36 fraction = (if fraction = [] then ''0'' else ''0.'' @ fraction)"

subsection \<open>The constants of the page\<close>

text \<open>The pictographs that end the fortunes are written as their UTF-8 bytes.\<close>

definition FORTUNE_MESSAGES :: "string list" where
  "FORTUNE_MESSAGES =
     [''Your next commit will be bug-free! '' @ [CHR 0xF0, CHR 0x9F, CHR 0xAA, CHR 0xB2],
      ''A great PR is in your future! '' @ [CHR 0xF0, CHR 0x9F, CHR 0x94, CHR 0xAE],
      ''Today is a good day to refactor! ''
        @ [CHR 0xE2, CHR 0x99, CHR 0xBB, CHR 0xEF, CHR 0xB8, CHR 0x8F],
      ''Your code will make someone smile! '' @ [CHR 0xF0, CHR 0x9F, CHR 0x98, CHR 0x8A],
      ''A mysterious bug will soon reveal itself! ''
        @ [CHR 0xF0, CHR 0x9F, CHR 0x95, CHR 0xB5, CHR 0xEF, CHR 0xB8, CHR 0x8F]]"

definition FAMOUS_DEVS :: "string list" where
  "FAMOUS_DEVS =
     [''Linus Torvalds'', ''Ada Lovelace'', ''Grace Hopper'', ''Alan Turing'',
      ''Margaret Hamilton'']"

definition days :: "string list" where
  "days = [''Sunday'', ''Monday'', ''Tuesday'', ''Wednesday'', ''Thursday'', ''Friday'',
           ''Saturday'']"

subsection \<open>The locals of \<^verbatim>\<open>getGitHubStats\<close>\<close>

text \<open>
  The three \<^verbatim>\<open>reduce\<close> calls. A field of a repository holds the integer that the reply
  wrote; the program reads it as the double the parser made of it, and adds doubles.
\<close>

definition totalStars_of :: "GitHubRepo list \<Rightarrow> number" where
  "totalStars_of reposData =
     foldl (\<lambda>acc repo. num_add acc (as_double (stargazers_count repo))) (Num 0) reposData"

definition totalForks_of :: "GitHubRepo list \<Rightarrow> number" where
  "totalForks_of reposData =
     foldl (\<lambda>acc repo. num_add acc (as_double (forks_count repo))) (Num 0) reposData"

definition totalSize_of :: "GitHubRepo list \<Rightarrow> number" where
  "totalSize_of reposData =
     foldl (\<lambda>acc repo. num_add acc (as_double (repo_size repo))) (Num 0) reposData"

text \<open>
  \<^verbatim>\<open>Math.round(totalSize / 1024)\<close>. Dividing a double with an integer value by a power of
  two is exact, and the integer nearest to the quotient is a double again.
\<close>

definition totalSizeMB_of :: "number \<Rightarrow> number" where
  "totalSizeMB_of totalSize =
     (case totalSize of
        Num n \<Rightarrow> Num (Math_round (real_of_int n / 1024))
      | other \<Rightarrow> other)"

definition languages_of :: "GitHubRepo list \<Rightarrow> string list" where
  "languages_of reposData =
     map the (filter (\<lambda>lang. lang \<noteq> None) (map language reposData))"

text \<open>
  \<^verbatim>\<open>langCount\<close> is a plain object used as a dictionary. The association list holds its
  own properties in the order of their creation.

  \<^verbatim>\<open>acc[lang] = (acc[lang] || 0) + 1\<close>. An own property is read and overwritten: a count
  becomes the next count, a string stays a string. For a name the object does not own
  the read goes to \<^verbatim>\<open>Object.prototype\<close>. Most names are not found there, and 1 is stored.
  A method of the prototype is found: it is truthy, \<^verbatim>\<open>+ 1\<close> appends \<^verbatim>\<open>"1"\<close> to its source text,
  and that string, which is no numeral, is stored. \<^verbatim>\<open>__proto__\<close> is an accessor of the
  prototype: it reads as an object, and its setter ignores the string it is given, so
  nothing is stored.
\<close>

definition Object_prototype_methods :: "string list" where
  "Object_prototype_methods =
     [''constructor'', ''hasOwnProperty'', ''isPrototypeOf'', ''propertyIsEnumerable'',
      ''toLocaleString'', ''toString'', ''valueOf'', ''__defineGetter__'',
      ''__defineSetter__'', ''__lookupGetter__'', ''__lookupSetter__'']"

fun plus_one :: "count_value \<Rightarrow> count_value" where
  "plus_one (Count c) = Count (c + 1)"
| "plus_one Text = Text"

fun bump_lang :: "(string \<times> count_value) list \<Rightarrow> string \<Rightarrow> (string \<times> count_value) list"
  where
  "bump_lang [] lang =
     (if lang = ''__proto__'' then []
      else if lang \<in> set Object_prototype_methods then [(lang, Text)]
      else [(lang, Count 1)])"
| "bump_lang ((k, v) # acc) lang =
     (if k = lang then (k, plus_one v) # acc else (k, v) # bump_lang acc lang)"

definition langCount_of :: "string list \<Rightarrow> (string \<times> count_value) list" where
  "langCount_of languages = foldl bump_lang [] languages"

text \<open>
  \<^verbatim>\<open>Object.entries\<close> lists the keys that are array indices first, in ascending numeric
  order, and then the other keys in the order of their creation. An array index is the
  decimal numeral, without a leading zero, of an integer below \<open>2^32 - 1\<close>.
\<close>

definition is_digit :: "char \<Rightarrow> bool" where
  "is_digit c = (48 \<le> (of_char c :: int) \<and> (of_char c :: int) \<le> 57)"

definition decimal_value :: "string \<Rightarrow> int" where
  "decimal_value s = foldl (\<lambda>a c. 10 * a + (of_char c - 48)) 0 s"

definition is_array_index :: "string \<Rightarrow> bool" where
  "is_array_index s =
     (s \<noteq> [] \<and> list_all is_digit s \<and> (s = ''0'' \<or> hd s \<noteq> CHR ''0'')
      \<and> decimal_value s < 4294967295)"

definition Object_entries :: "(string \<times> 'v) list \<Rightarrow> (string \<times> 'v) list" where
  "Object_entries props =
     sort_key (\<lambda>e. decimal_value (fst e)) (filter (\<lambda>e. is_array_index (fst e)) props)
     @ filter (\<lambda>e. \<not> is_array_index (fst e)) props"

text \<open>
  \<^verbatim>\<open>Array.prototype.sort\<close> with a comparison function. When the function is a consistent
  comparator for the elements (ECMA-262: its zero is reflexive, symmetric and
  transitive, and its negative and its positive are transitive), the sort is stable:
  \<open>x\<close> stays behind every earlier element \<open>y\<close> unless \<open>cmp y x > 0\<close>; the elements are
  inserted one by one, each behind the elements it does not have to precede. Otherwise
  the order is the implementation's, given as \<open>engine\<close>.
\<close>

fun insert_sorted :: "('a \<Rightarrow> 'a \<Rightarrow> int) \<Rightarrow> 'a \<Rightarrow> 'a list \<Rightarrow> 'a list" where
  "insert_sorted cmp x [] = [x]"
| "insert_sorted cmp x (y # ys) =
     (if cmp y x \<le> 0 then y # insert_sorted cmp x ys else x # y # ys)"

definition insertion_sort :: "('a \<Rightarrow> 'a \<Rightarrow> int) \<Rightarrow> 'a list \<Rightarrow> 'a list" where
  "insertion_sort cmp xs = foldl (\<lambda>acc x. insert_sorted cmp x acc) [] xs"

definition consistent_comparator :: "('a \<Rightarrow> 'a \<Rightarrow> int) \<Rightarrow> 'a list \<Rightarrow> bool" where
  "consistent_comparator cmp xs =
     (\<forall>a \<in> set xs. \<forall>b \<in> set xs. \<forall>c \<in> set xs.
        cmp a a = 0
        \<and> (cmp a b = 0 \<longrightarrow> cmp b a = 0)
        \<and> (cmp a b = 0 \<and> cmp b c = 0 \<longrightarrow> cmp a c = 0)
        \<and> (cmp a b < 0 \<and> cmp b c < 0 \<longrightarrow> cmp a c < 0)
        \<and> (0 < cmp a b \<and> 0 < cmp b c \<longrightarrow> 0 < cmp a c))"

definition Array_sort :: "('a list \<Rightarrow> 'a list) \<Rightarrow> ('a \<Rightarrow> 'a \<Rightarrow> int) \<Rightarrow> 'a list \<Rightarrow> 'a list"
  where
  "Array_sort engine cmp xs =
     (if consistent_comparator cmp xs then insertion_sort cmp xs else engine xs)"

text \<open>
  The comparison function \<^verbatim>\<open>([,a], [,b]) => b - a\<close>. With a string that is no numeral
  the difference is \<^verbatim>\<open>NaN\<close>, which the sort reads as 0.
\<close>

definition by_count_desc :: "string \<times> count_value \<Rightarrow> string \<times> count_value \<Rightarrow> int" where
  "by_count_desc x y =
     (case snd x of
        Count a \<Rightarrow> (case snd y of Count b \<Rightarrow> b - a | Text \<Rightarrow> 0)
      | Text \<Rightarrow> 0)"

definition sortedEntries_of :: "runtime \<Rightarrow> GitHubRepo list \<Rightarrow> (string \<times> count_value) list"
  where
  "sortedEntries_of env reposData =
     Array_sort (inconsistent_sort env) by_count_desc
       (Object_entries (langCount_of (languages_of reposData)))"

text \<open>\<^verbatim>\<open>.slice(0, 3).map(([lang]) => lang)\<close>, and then \<^verbatim>\<open>.join(', ')\<close>.\<close>

definition topLanguageList_of :: "runtime \<Rightarrow> GitHubRepo list \<Rightarrow> string list" where
  "topLanguageList_of env reposData = map fst (take 3 (sortedEntries_of env reposData))"

definition topLanguages_of :: "runtime \<Rightarrow> GitHubRepo list \<Rightarrow> string" where
  "topLanguages_of env reposData = join '', '' (topLanguageList_of env reposData)"

text \<open>\<^verbatim>\<open>thirtyDaysAgo.setDate(thirtyDaysAgo.getDate() - 30)\<close> on \<^verbatim>\<open>new Date()\<close>.\<close>

definition thirtyDaysAgo_of :: "runtime \<Rightarrow> int option" where
  "thirtyDaysAgo_of env = setDate env (now env) (getDate env (now env) - 30)"

definition recentActivity_of :: "runtime \<Rightarrow> GitHubRepo list \<Rightarrow> int" where
  "recentActivity_of env reposData =
     int (length (filter
       (\<lambda>repo. Date_gt (Date_parse env (pushed_at repo)) (thirtyDaysAgo_of env))
       reposData))"

definition pushDays_of :: "runtime \<Rightarrow> GitHubRepo list \<Rightarrow> int option list" where
  "pushDays_of env reposData =
     map (\<lambda>repo. getDay env (Date_parse env (pushed_at repo))) reposData"

text \<open>
  \<^verbatim>\<open>dayCount[day]++\<close>. A day is one of 0 .. 6, or \<^verbatim>\<open>NaN\<close> for an invalid date: then the
  statement writes the property \<^verbatim>\<open>"NaN"\<close> of the array and leaves its seven elements as
  they are.
\<close>

definition bump_day :: "int list \<Rightarrow> int option \<Rightarrow> int list" where
  "bump_day dayCount day =
     (case day of None \<Rightarrow> dayCount
      | Some d \<Rightarrow> dayCount[nat d := dayCount ! nat d + 1])"

definition dayCount_of :: "runtime \<Rightarrow> GitHubRepo list \<Rightarrow> int list" where
  "dayCount_of env reposData = foldl bump_day (replicate 7 0) (pushDays_of env reposData)"

definition mostActiveDay_of :: "runtime \<Rightarrow> GitHubRepo list \<Rightarrow> string option" where
  "mostActiveDay_of env reposData =
     (let dayCount = dayCount_of env reposData
      in array_at days (indexOf dayCount (Math_max dayCount)))"

definition couponCode_of :: "runtime \<Rightarrow> string" where
  "couponCode_of env = toUpperCase (substring (toString36 (random_coupon env)) 2 8)"

subsection \<open>\<^verbatim>\<open>getGitHubStats\<close>\<close>

record receipt_stats =
  totalRepos :: int
  totalStars :: number
  totalForks :: number
  topLanguages :: string
  totalSizeMB :: number
  recentActivity :: int
  mostActiveDay :: "string option"
  randomFortune :: "string option"
  cashier :: "string option"
  couponCode :: string

record lookup =
  userData :: GitHubUser
  stats :: receipt_stats

text \<open>
  \<^verbatim>\<open>Promise.all\<close> rejects when one of the two fetches rejects. Of the two responses only
  \<^verbatim>\<open>userResponse.ok\<close> is tested. Both bodies are parsed, the user's first.
\<close>

definition getGitHubStats :: "runtime \<Rightarrow> string \<Rightarrow> js_error + lookup" where
  "getGitHubStats env u =
     (case fetch_user env u of
        Rejected \<Rightarrow> Inl NetworkError
      | Response user_ok user_body \<Rightarrow>
         (case fetch_repos env u of
            Rejected \<Rightarrow> Inl NetworkError
          | Response repos_ok repos_body \<Rightarrow>
             if \<not> user_ok then Inl (Error ''User not found'')
             else
              (case user_body of
                 Malformed \<Rightarrow> Inl SyntaxError
               | Parsed user \<Rightarrow>
                  (case repos_body of
                     Malformed \<Rightarrow> Inl SyntaxError
                   | Parsed NotAnArray \<Rightarrow> Inl TypeError
                   | Parsed (ReposArray reposData) \<Rightarrow>
                      Inr \<lparr>userData = user,
                           stats = \<lparr>
                             totalRepos = int (length reposData),
                             totalStars = totalStars_of reposData,
                             totalForks = totalForks_of reposData,
                             topLanguages = topLanguages_of env reposData,
                             totalSizeMB = totalSizeMB_of (totalSize_of reposData),
                             recentActivity = recentActivity_of env reposData,
                             mostActiveDay = mostActiveDay_of env reposData,
                             randomFortune =
                               array_at FORTUNE_MESSAGES
                                 (Math_floor (random_fortune env
                                    * real (length FORTUNE_MESSAGES))),
                             cashier =
                               array_at FAMOUS_DEVS
                                 (Math_floor (random_cashier env
                                    * real (length FAMOUS_DEVS))),
                             couponCode = couponCode_of env\<rparr>\<rparr>))))"

subsection \<open>The page: \<^verbatim>\<open>Home\<close>\<close>

text \<open>
  The state of the component. \<^verbatim>\<open>handleSubmit\<close> is given by the state it leaves when its
  promise settles (in between, \<open>loading\<close> is true and \<open>error\<close> is empty). A failed lookup
  sets \<open>error\<close> and leaves \<open>data\<close> as it was.
\<close>

record page_state =
  username :: string
  data :: "lookup option"
  loading :: bool
  error :: string

definition handleSubmit :: "runtime \<Rightarrow> page_state \<Rightarrow> page_state" where
  "handleSubmit env st =
     (if username st = [] then st
      else
       (case getGitHubStats env (username st) of
          Inr result \<Rightarrow> st\<lparr>data := Some result, loading := False, error := []\<rparr>
        | Inl err \<Rightarrow> st\<lparr>loading := False, error := ''User not found''\<rparr>))"

text \<open>
  The receipt, and with it the element \<^verbatim>\<open>receiptRef\<close> points to, is rendered under
  \<^verbatim>\<open>{data && ...}\<close>: \<^verbatim>\<open>receiptRef.current\<close> is set exactly when \<open>data\<close> is.
\<close>

definition receiptRef_current :: "page_state \<Rightarrow> bool" where
  "receiptRef_current st = (data st \<noteq> None)"

text \<open>\<^verbatim>\<open>data?.userData?.login || 'user'\<close>: the empty string is falsy.\<close>

definition download_handle :: "page_state \<Rightarrow> string" where
  "download_handle st =
     (case data st of None \<Rightarrow> ''user''
      | Some d \<Rightarrow> if login (userData d) = [] then ''user'' else login (userData d))"

text \<open>\<^verbatim>\<open>handleDownload\<close>: the value of \<^verbatim>\<open>link.download\<close>, if a link is made at all.\<close>

definition handleDownload :: "page_state \<Rightarrow> string option" where
  "handleDownload st =
     (if receiptRef_current st
      then Some (''github-receipt-'' @ download_handle st @ ''.png'')
      else None)"

text \<open>Two expressions of the JSX: the contribution score and the languages line.\<close>

definition contributionScore :: "lookup \<Rightarrow> number" where
  "contributionScore d =
     num_add (num_mul (totalStars (stats d)) (Num 2))
             (num_mul (as_double (followers (userData d))) (Num 3))"

definition topLanguages_shown :: "lookup \<Rightarrow> string" where
  "topLanguages_shown d =
     (if topLanguages (stats d) = [] then ''NONE'' else topLanguages (stats d))"

subsection \<open>Notions of the specification\<close>

text \<open>The number of repositories whose last push fell on weekday \<open>j\<close> (0 is Sunday).\<close>

definition weekday_pushes :: "runtime \<Rightarrow> GitHubRepo list \<Rightarrow> nat \<Rightarrow> int" where
  "weekday_pushes env reposData j =
     int (length (filter
       (\<lambda>repo. getDay env (Date_parse env (pushed_at repo)) = Some (int j)) reposData))"







text \<open>The characters of a coupon code.\<close>

definition upper_alnum :: "char \<Rightarrow> bool" where
  "upper_alnum c = (c \<in> set ''0123456789ABCDEFGHIJKLMNOPQRSTUVWXYZ'')"

subsection \<open>Sample inputs\<close>

definition octocat :: GitHubUser where
  "octocat =
     \<lparr>login = ''octocat'', user_name = Some ''The Octocat'', followers = 10, following = 9,
      public_repos = 2, user_created_at = ''2011-01-25T18:44:36Z'',
      location = Some ''San Francisco'', public_gists = 8\<rparr>"

definition sample_repo :: "string \<Rightarrow> int \<Rightarrow> int \<Rightarrow> int \<Rightarrow> string option \<Rightarrow> string \<Rightarrow> GitHubRepo"
  where
  "sample_repo n s f z l p =
     \<lparr>repo_name = n, stargazers_count = s, forks_count = f, repo_size = z, language = l,
      pushed_at = p, repo_created_at = ''2020-01-01T00:00:00Z''\<rparr>"

text \<open>The repositories of the end-to-end scenario of the specification.\<close>

definition two_repos :: "GitHubRepo list" where
  "two_repos =
     [sample_repo ''alpha'' 5 1 2048 (Some ''TypeScript'') ''2024-03-19T10:00:00Z'',
      sample_repo ''beta'' 3 0 1024 None ''2024-03-04T09:30:00Z'']"

text \<open>
  Seven repositories: pushed on a Tuesday, a Monday, a Monday, a Tuesday, never (an
  unreadable date), a Monday in February and a Tuesday; four languages, two of them twice.
\<close>

definition seven_repos :: "GitHubRepo list" where
  "seven_repos =
     [sample_repo ''alpha'' 5 1 2048 (Some ''TypeScript'') ''2024-03-19T10:00:00Z'',
      sample_repo ''beta'' 3 0 1024 None ''2024-03-04T09:30:00Z'',
      sample_repo ''gamma'' 0 2 100 (Some ''Go'') ''2024-01-15T12:00:00Z'',
      sample_repo ''delta'' 1 0 7 (Some ''Go'') ''2024-03-12T10:00:00Z'',
      sample_repo ''epsilon'' 0 0 0 (Some ''TypeScript'') ''not a date'',
      sample_repo ''zeta'' 2 0 50 (Some ''Rust'') ''2024-02-19T16:30:00Z'',
      sample_repo ''eta'' 0 0 3 (Some ''Python'') ''2024-03-19T10:00:00Z'']"





definition one_big_repo :: "GitHubRepo list" where
  "one_big_repo = [sample_repo ''big'' 9007199254740992 0 0 None ''2024-03-19T10:00:00Z'']"


definition no_language_repos :: "GitHubRepo list" where
  "no_language_repos =
     [sample_repo ''beta'' 3 0 1024 None ''2024-03-04T09:30:00Z'',
      sample_repo ''theta'' 0 0 12 None ''2024-03-12T10:00:00Z'']"

text \<open>What \<^verbatim>\<open>Date.parse\<close> returns for the time stamps of the samples.\<close>

definition iso_table :: "string \<Rightarrow> int option" where
  "iso_table =
     map_of
       [(''2024-03-19T10:00:00Z'', 1710842400000),
        (''2024-03-04T09:30:00Z'', 1709544600000),
        (''2024-01-15T12:00:00Z'', 1705320000000),
        (''2024-03-12T10:00:00Z'', 1710237600000),
        (''2024-02-19T16:30:00Z'', 1708360200000),
        (''2024-07-01T12:00:00Z'', 1719835200000),
        (''2024-06-15T16:00:00Z'', 1718467200000),
        (''2024-06-10T08:00:00Z'', 1718006400000)]"

text \<open>A host on UTC, at 2024-03-20T16:00:00Z, that knows the user \<open>octocat\<close>.\<close>

definition demo_runtime :: "GitHubRepo list \<Rightarrow> runtime" where
  "demo_runtime reposData =
     \<lparr>fetch_user =
        (\<lambda>u. if u = ''octocat'' then Response True (Parsed octocat)
             else Response False Malformed),
      fetch_repos =
        (\<lambda>u. if u = ''octocat'' then Response True (Parsed (ReposArray reposData))
             else Response False (Parsed NotAnArray)),
      now = 1710950400000,
      LocalTZA = (\<lambda>t isUTC. 0),
      Date_parse = iso_table,
      random_fortune = 3 / 10,
      random_cashier = 9 / 10,
      random_coupon = ''k2j9x1m4q7p'',
      inconsistent_sort = (\<lambda>entries. entries)\<rparr>"





text \<open>
  The user is found; the request for the repositories is answered with an error status
  and an empty JSON array as its body.
\<close>

definition repos_error_runtime :: runtime where
  "repos_error_runtime =
     (demo_runtime [])\<lparr>fetch_repos := (\<lambda>u. Response False (Parsed (ReposArray [])))\<rparr>"

text \<open>The third call of \<^verbatim>\<open>Math.random()\<close> returns 0.\<close>

definition zero_draw_runtime :: runtime where
  "zero_draw_runtime = (demo_runtime two_repos)\<lparr>random_coupon := []\<rparr>"

text \<open>A user with one follower and one repository, of \<open>2^53\<close> stars.\<close>

definition newcomer :: GitHubUser where
  "newcomer =
     \<lparr>login = ''newcomer'', user_name = None, followers = 1, following = 0,
      public_repos = 1, user_created_at = ''2024-01-01T00:00:00Z'',
      location = None, public_gists = 0\<rparr>"

definition big_star_runtime :: runtime where
  "big_star_runtime =
     (demo_runtime one_big_repo)\<lparr>fetch_user := (\<lambda>u. Response True (Parsed newcomer))\<rparr>"

definition start_state :: page_state where
  "start_state = \<lparr>username = ''octocat'', data = None, loading = False, error = []\<rparr>"

section \<open>Properties\<close>

subsection \<open>Sums of doubles\<close>

declare bit_length.simps [simp del]


lemma bit_length_bound: "0 \<le> m \<Longrightarrow> m < 2 ^ k \<Longrightarrow> bit_length m \<le> k"
proof (induction k arbitrary: m)
  case 0
  then have "m = 0" by simp
  then show ?case by (simp add: bit_length.simps [of 0])
next
  case (Suc k)
  show ?case
  proof (cases "m \<le> 0")
    case True
    then show ?thesis by (simp add: bit_length.simps [of m])
  next
    case False
    have "0 \<le> m div 2" using Suc.prems(1) by simp
    moreover have "m div 2 < 2 ^ k" using Suc.prems(2) by simp
    ultimately have "bit_length (m div 2) \<le> k" by (rule Suc.IH)
    then show ?thesis using False by (simp add: bit_length.simps [of m])
  qed
qed

text \<open>Up to \<open>2^53\<close> every integer is a double.\<close>

lemma round53_small: "\<bar>n\<bar> < 2 ^ 53 \<Longrightarrow> round53 n = n"
proof -
  assume "\<bar>n\<bar> < 2 ^ 53"
  then have "bit_length \<bar>n\<bar> \<le> 53" by (intro bit_length_bound) simp_all
  then have "bit_length \<bar>n\<bar> - 53 = 0" by simp
  then show ?thesis by (simp add: round53_def Let_def mult_sgn_abs)
qed

lemma round53_2_53: "round53 9007199254740992 = 9007199254740992"
  by code_simp

lemma round53_minus_2_53: "round53 (- 9007199254740992) = - 9007199254740992"
  by code_simp

lemma as_double_exact: "\<bar>n\<bar> \<le> 2 ^ 53 \<Longrightarrow> as_double n = Num n"
proof -
  assume b: "\<bar>n\<bar> \<le> 2 ^ 53"
  have r: "round53 n = n"
  proof (cases "\<bar>n\<bar> < 2 ^ 53")
    case True
    then show ?thesis by (rule round53_small)
  next
    case False
    with b have "n = 9007199254740992 \<or> n = - 9007199254740992" by auto
    then show ?thesis using round53_2_53 round53_minus_2_53 by auto
  qed
  have "(2::int) ^ 53 < 2 ^ 1024" by (rule power_strict_increasing) simp_all
  with b have "\<not> 2 ^ 1024 \<le> \<bar>n\<bar>" by linarith
  then show ?thesis by (simp only: as_double_def Let_def r if_False)
qed

text \<open>
  A \<^verbatim>\<open>reduce\<close> that adds a field is exact when the absolute values of the field, and of the
  start, add up to \<open>2^53\<close> at most: then no partial sum, in whatever order, leaves the
  range in which every integer is a double.
\<close>

lemma foldl_num_add_exact:
  "\<bar>a\<bar> + sum_list (map (\<lambda>x. \<bar>f x\<bar>) xs) \<le> 2 ^ 53 \<Longrightarrow>
   foldl (\<lambda>acc x. num_add acc (as_double (f x))) (Num a) xs = Num (a + sum_list (map f xs))"
proof (induction xs arbitrary: a)
  case Nil
  show ?case by simp
next
  case (Cons x xs)
  have nonneg: "0 \<le> sum_list (map (\<lambda>x. \<bar>f x\<bar>) xs)"
    by (rule sum_list_nonneg) auto
  have bx: "\<bar>f x\<bar> \<le> 2 ^ 53" and bs: "\<bar>a + f x\<bar> \<le> 2 ^ 53"
    and rest: "\<bar>a + f x\<bar> + sum_list (map (\<lambda>x. \<bar>f x\<bar>) xs) \<le> 2 ^ 53"
    using Cons.prems nonneg by simp_all
  have "num_add (Num a) (as_double (f x)) = Num (a + f x)"
    by (simp add: as_double_exact [OF bx] as_double_exact [OF bs])
  then show ?case using Cons.IH [OF rest] by (simp add: add.assoc)
qed

lemma totalStars_of_exact:
  "sum_list (map (\<lambda>repo. \<bar>stargazers_count repo\<bar>) reposData) \<le> 2 ^ 53 \<Longrightarrow>
   totalStars_of reposData = Num (sum_list (map stargazers_count reposData))"
  using foldl_num_add_exact [of 0 stargazers_count reposData]
  by (simp add: totalStars_of_def)



subsection \<open>The calendar\<close>

text \<open>\<open>YearFromTime\<close> finds the year ECMA-262 asks for.\<close>

lemma div_bounds: "0 < (n::int) \<Longrightarrow> n * (x div n) \<le> x \<and> x < n * (x div n) + n"
proof -
  assume n: "0 < n"
  have "x = n * (x div n) + x mod n" by simp
  moreover have "0 \<le> x mod n" "x mod n < n" using n by simp_all
  ultimately show ?thesis by linarith
qed

lemma DayFromYear_bounds:
  "146097 * (y - 1970) - 506 \<le> 400 * DayFromYear y \<and>
   400 * DayFromYear y \<le> 146097 * (y - 1970) + 589"
proof -
  define A where "A = (y - 1969) div 4"
  define B where "B = (y - 1901) div 100"
  define C where "C = (y - 1601) div 400"
  have a: "4 * A \<le> y - 1969 \<and> y - 1969 < 4 * A + 4"
    unfolding A_def by (rule div_bounds) simp
  have b: "100 * B \<le> y - 1901 \<and> y - 1901 < 100 * B + 100"
    unfolding B_def by (rule div_bounds) simp
  have c: "400 * C \<le> y - 1601 \<and> y - 1601 < 400 * C + 400"
    unfolding C_def by (rule div_bounds) simp
  have "DayFromYear y = 365 * (y - 1970) + A - B + C"
    by (simp add: DayFromYear_def A_def B_def C_def)
  then show ?thesis using a b c by (simp add: algebra_simps)
qed

lemma YearFromTime_bounds:
  "DayFromYear (YearFromTime t) \<le> Day t \<and> Day t < DayFromYear (YearFromTime t + 1)"
proof -
  define d where "d = Day t"
  define y where "y = 1970 + (400 * d) div 146097"
  have q: "146097 * ((400 * d) div 146097) \<le> 400 * d \<and>
           400 * d < 146097 * ((400 * d) div 146097) + 146097"
    by (rule div_bounds) simp
  define k where "k = (400 * d) div 146097"
  have yk: "y = 1970 + k" by (simp add: y_def k_def)
  have qk: "146097 * k \<le> 400 * d \<and> 400 * d < 146097 * k + 146097"
    using q by (simp add: k_def)
  have lo: "DayFromYear (y - 1) \<le> d"
    using DayFromYear_bounds [of "y - 1"] qk yk by (simp add: algebra_simps)
  have hi: "d < DayFromYear (y + 2)"
    using DayFromYear_bounds [of "y + 2"] qk yk by (simp add: algebra_simps)
  have yft: "YearFromTime t =
      (if DayFromYear (y + 1) \<le> d then y + 1 else if d < DayFromYear y then y - 1 else y)"
    by (simp add: YearFromTime_def Let_def d_def y_def)
  show ?thesis
  proof (cases "DayFromYear (y + 1) \<le> d")
    case True
    then show ?thesis using hi yft by (simp add: d_def [symmetric] add.commute)
  next
    case False
    note F = this
    show ?thesis
    proof (cases "d < DayFromYear y")
      case True
      then show ?thesis using lo yft F by (simp add: d_def [symmetric])
    next
      case False
      then show ?thesis using yft F by (simp add: d_def [symmetric])
    qed
  qed
qed






subsection \<open>The histogram of weekdays\<close>

lemma WeekDay_range: "0 \<le> WeekDay t \<and> WeekDay t < 7"
  by (simp add: WeekDay_def)

lemma getDay_range: "getDay env tv = Some d \<Longrightarrow> 0 \<le> d \<and> d < 7"
  using WeekDay_range by (auto simp: getDay_def split: option.splits)

lemma length_bump_day: "length (bump_day dc x) = length dc"
  by (simp add: bump_day_def split: option.splits)

lemma length_foldl_bump_day: "length (foldl bump_day dc ds) = length dc"
  by (induction ds arbitrary: dc) (simp_all add: length_bump_day)

lemma nth_bump_day:
  assumes "j < length dc" and "\<And>d. x = Some d \<Longrightarrow> 0 \<le> d"
  shows "bump_day dc x ! j = dc ! j + (if x = Some (int j) then 1 else 0)"
proof (cases x)
  case None
  then show ?thesis by (simp add: bump_day_def)
next
  case (Some d)
  then have "0 \<le> d" using assms(2) by simp
  then have "nat d = j \<longleftrightarrow> d = int j" by auto
  then show ?thesis using Some assms(1) by (auto simp: bump_day_def nth_list_update)
qed

lemma nth_foldl_bump_day:
  assumes "j < length dc" and "\<And>d. Some d \<in> set ds \<Longrightarrow> 0 \<le> d"
  shows "foldl bump_day dc ds ! j = dc ! j + int (length (filter (\<lambda>x. x = Some (int j)) ds))"
  using assms
proof (induction ds arbitrary: dc)
  case Nil
  then show ?case by simp
next
  case (Cons x ds)
  have "foldl bump_day (bump_day dc x) ds ! j =
        bump_day dc x ! j + int (length (filter (\<lambda>x. x = Some (int j)) ds))"
    using Cons.prems by (intro Cons.IH) (simp_all add: length_bump_day)
  moreover have "bump_day dc x ! j = dc ! j + (if x = Some (int j) then 1 else 0)"
    using Cons.prems by (intro nth_bump_day) simp_all
  ultimately show ?case by simp
qed

lemma length_dayCount_of: "length (dayCount_of env reposData) = 7"
  by (simp add: dayCount_of_def length_foldl_bump_day)

lemma nth_dayCount_of:
  assumes "j < 7"
  shows "dayCount_of env reposData ! j = weekday_pushes env reposData j"
proof -
  have "\<And>d. Some d \<in> set (pushDays_of env reposData) \<Longrightarrow> 0 \<le> d"
    using getDay_range by (fastforce simp: pushDays_of_def)
  then have "dayCount_of env reposData ! j =
      replicate 7 0 ! j + int (length (filter (\<lambda>x. x = Some (int j)) (pushDays_of env reposData)))"
    unfolding dayCount_of_def using assms by (intro nth_foldl_bump_day) simp_all
  then show ?thesis using assms
    by (simp add: weekday_pushes_def pushDays_of_def filter_map comp_def)
qed

lemma Math_max_Max: "xs \<noteq> [] \<Longrightarrow> Math_max xs = Some (Max (set xs))"
proof (cases xs)
  case Nil
  assume "xs \<noteq> []"
  with Nil show ?thesis by simp
next
  case (Cons x ys)
  have "foldl max x ys = fold max ys x"
    by (simp add: foldl_conv_fold max.commute)
  also have "\<dots> = Max (set (x # ys))"
    by (rule Max.set_eq_fold [symmetric])
  finally show ?thesis using Cons by simp
qed

lemma indexOf_from_first:
  "v \<in> set xs \<Longrightarrow>
   \<exists>i<length xs. indexOf_from xs (Some v) k = k + int i \<and> xs ! i = v \<and> (\<forall>j<i. xs ! j \<noteq> v)"
proof (induction xs arbitrary: k)
  case Nil
  then show ?case by simp
next
  case (Cons x xs)
  show ?case
  proof (cases "x = v")
    case True
    then show ?thesis by (intro exI [of _ 0]) simp
  next
    case False
    with Cons.prems have "v \<in> set xs" by simp
    from Cons.IH [OF this, of "k + 1"] obtain i where
      i: "i < length xs" "indexOf_from xs (Some v) (k + 1) = k + 1 + int i" "xs ! i = v"
         "\<forall>j<i. xs ! j \<noteq> v" by blast
    have "\<forall>j<Suc i. (x # xs) ! j \<noteq> v"
      using False i(4) by (auto simp: nth_Cons split: nat.splits)
    then show ?thesis using False i by (intro exI [of _ "Suc i"]) simp
  qed
qed

subsection \<open>Counting and sorting the languages\<close>


























subsection \<open>A successful lookup\<close>

lemma getGitHubStats_success:
  assumes "fetch_user env u = Response True (Parsed user)"
    and "fetch_repos env u = Response repos_ok (Parsed (ReposArray reposData))"
  shows "\<exists>d. getGitHubStats env u = Inr d \<and> userData d = user
    \<and> totalRepos (stats d) = int (length reposData)
    \<and> totalStars (stats d) = totalStars_of reposData
    \<and> totalForks (stats d) = totalForks_of reposData
    \<and> topLanguages (stats d) = topLanguages_of env reposData
    \<and> totalSizeMB (stats d) = totalSizeMB_of (totalSize_of reposData)
    \<and> recentActivity (stats d) = recentActivity_of env reposData
    \<and> mostActiveDay (stats d) = mostActiveDay_of env reposData
    \<and> couponCode (stats d) = couponCode_of env"
  using assms by (simp add: getGitHubStats_def)

lemma demo_fetch_user: "fetch_user (demo_runtime rs) ''octocat'' = Response True (Parsed octocat)"
  by (simp add: demo_runtime_def)

lemma demo_fetch_repos:
  "fetch_repos (demo_runtime rs) ''octocat'' = Response True (Parsed (ReposArray rs))"
  by (simp add: demo_runtime_def)

subsection \<open>C1: the most active weekday\<close>

lemma dayCount_seven:
  "dayCount_of (demo_runtime seven_repos) seven_repos = [0, 3, 3, 0, 0, 0, 0]"
  by code_simp

lemma mostActiveDay_seven:
  "mostActiveDay_of (demo_runtime seven_repos) seven_repos = Some ''Monday''"
  by code_simp

text \<open>
  Claim C1. For every sequence of repositories, \<open>dayCount\<close> is the histogram over the seven
  weekdays of the last pushes (bucket \<open>j\<close> counts the repositories pushed on weekday \<open>j\<close>,
  Sunday being 0), and the most active day is the name of the first bucket that holds the
  maximum: no bucket holds more, and every earlier bucket holds less, so a tie goes to the
  lowest weekday. The result is determined by the repositories, together with the parser
  of dates and the time zone of the host, in which the weekday is read: neither the
  clock nor the random draws nor the network enter it.
\<close>

theorem most_active_day_first_maximum:
  "dayCount_of env reposData = map (weekday_pushes env reposData) [0..<7]
   \<and> (\<exists>i<7. mostActiveDay_of env reposData = Some (days ! i)
        \<and> (\<forall>j<7. weekday_pushes env reposData j \<le> weekday_pushes env reposData i)
        \<and> (\<forall>j<i. weekday_pushes env reposData j < weekday_pushes env reposData i))
   \<and> (\<forall>env'. LocalTZA env' = LocalTZA env \<and> Date_parse env' = Date_parse env \<longrightarrow>
          mostActiveDay_of env' reposData = mostActiveDay_of env reposData)"
proof (intro conjI)
  show "dayCount_of env reposData = map (weekday_pushes env reposData) [0..<7]"
    by (rule nth_equalityI) (simp_all add: length_dayCount_of nth_dayCount_of)
next
  show "\<forall>env'. LocalTZA env' = LocalTZA env \<and> Date_parse env' = Date_parse env \<longrightarrow>
          mostActiveDay_of env' reposData = mostActiveDay_of env reposData"
  proof (intro allI impI)
    fix env' :: runtime
    assume same: "LocalTZA env' = LocalTZA env \<and> Date_parse env' = Date_parse env"
    then have "LocalTime env' = LocalTime env"
      by (simp add: fun_eq_iff LocalTime_def)
    then have "getDay env' = getDay env"
      by (auto simp: fun_eq_iff getDay_def split: option.splits)
    then have "pushDays_of env' reposData = pushDays_of env reposData"
      using same by (simp add: pushDays_of_def)
    then show "mostActiveDay_of env' reposData = mostActiveDay_of env reposData"
      by (simp add: mostActiveDay_of_def dayCount_of_def)
  qed
next
  define dc where "dc = dayCount_of env reposData"
  have len: "length dc = 7" by (simp add: dc_def length_dayCount_of)
  then have ne: "dc \<noteq> []" by auto
  define m where "m = Max (set dc)"
  have mm: "Math_max dc = Some m" by (simp add: m_def Math_max_Max ne)
  have "m \<in> set dc" unfolding m_def using ne by (intro Max_in) simp_all
  from indexOf_from_first [OF this, of 0] obtain i where
    i: "i < length dc" "indexOf_from dc (Some m) 0 = int i" "dc ! i = m" "\<forall>j<i. dc ! j \<noteq> m"
    by auto
  have le: "\<And>j. j < 7 \<Longrightarrow> dc ! j \<le> m"
    unfolding m_def using len by (intro Max_ge) simp_all
  have nth: "\<And>j. j < 7 \<Longrightarrow> dc ! j = weekday_pushes env reposData j"
    by (simp add: dc_def nth_dayCount_of)
  have i7: "i < 7" using i(1) len by simp
  have "mostActiveDay_of env reposData = Some (days ! i)"
    using i(2) i7 mm by (simp add: mostActiveDay_of_def Let_def dc_def [symmetric] indexOf_def
        array_at_def days_def)
  moreover have "\<forall>j<7. weekday_pushes env reposData j \<le> weekday_pushes env reposData i"
    using le nth i(3) i7 by auto
  moreover have "\<forall>j<i. weekday_pushes env reposData j < weekday_pushes env reposData i"
  proof (intro allI impI)
    fix j assume "j < i"
    then have "j < 7" using i7 by simp
    with le [OF this] i(4) \<open>j < i\<close> have "dc ! j < m" by force
    then show "weekday_pushes env reposData j < weekday_pushes env reposData i"
      using nth \<open>j < 7\<close> i7 i(3) by simp
  qed
  ultimately show "\<exists>i<7. mostActiveDay_of env reposData = Some (days ! i)
        \<and> (\<forall>j<7. weekday_pushes env reposData j \<le> weekday_pushes env reposData i)
        \<and> (\<forall>j<i. weekday_pushes env reposData j < weekday_pushes env reposData i)"
    using i7 by blast
qed

text \<open>
  On the seven samples Monday and Tuesday both have three pushes, and Monday is chosen,
  although a Tuesday comes first in the list.
\<close>

theorem most_active_day_first_maximum_witness:
  "mostActiveDay_of (demo_runtime seven_repos) seven_repos = Some ''Monday''
   \<and> map (weekday_pushes (demo_runtime seven_repos) seven_repos) [0..<7] = [0, 3, 3, 0, 0, 0, 0]"
proof -
  from most_active_day_first_maximum [of "demo_runtime seven_repos" seven_repos]
  have "dayCount_of (demo_runtime seven_repos) seven_repos
        = map (weekday_pushes (demo_runtime seven_repos) seven_repos) [0..<7]"
    by (elim conjE)
  then show ?thesis using dayCount_seven mostActiveDay_seven by simp
qed

subsection \<open>C2: the contribution score\<close>

text \<open>
  Claim C2 says that the printed score is exactly \<open>2 * totalStars + 3 * followers\<close> for all
  non-negative integers. The page computes with doubles. For one repository with
  \<open>2^53\<close> stars and a user with one follower the exact score \<open>2^54 + 3\<close> is no double, and
  the page prints the double next to it, \<open>2^54 + 4\<close>.
\<close>

theorem contribution_score_rounds_counterexample:
  "fetch_user big_star_runtime ''octocat'' = Response True (Parsed newcomer)
   \<and> fetch_repos big_star_runtime ''octocat'' = Response True (Parsed (ReposArray one_big_repo))
   \<and> followers newcomer = 1
   \<and> map stargazers_count one_big_repo = [9007199254740992]
   \<and> 2 * sum_list (map stargazers_count one_big_repo) + 3 * followers newcomer
       = 18014398509481987
   \<and> map_sum id contributionScore (getGitHubStats big_star_runtime ''octocat'')
       = Inr (Num 18014398509481988)"
  by code_simp

text \<open>
  Claim C2, amended. For every profile with a non-negative follower count and every
  sequence of repositories with non-negative star counts such that
  \<open>2 * totalStars + 3 * followers\<close> is at most \<open>2^53\<close>, the printed score is exactly that
  number, \<open>totalStars\<close> being the sum of the star counts. The formula has no parameter.
\<close>

theorem contribution_score_formula:
  assumes "fetch_user env u = Response True (Parsed user)"
    and "fetch_repos env u = Response repos_ok (Parsed (ReposArray reposData))"
    and "\<forall>repo \<in> set reposData. 0 \<le> stargazers_count repo"
    and "0 \<le> followers user"
    and "2 * sum_list (map stargazers_count reposData) + 3 * followers user \<le> 2 ^ 53"
  shows "\<exists>d. getGitHubStats env u = Inr d
    \<and> contributionScore d
        = Num (2 * sum_list (map stargazers_count reposData) + 3 * followers user)"
proof -
  define S where "S = sum_list (map stargazers_count reposData)"
  define F where "F = followers user"
  have S0: "0 \<le> S" unfolding S_def using assms(3) by (intro sum_list_nonneg) auto
  have F0: "0 \<le> F" unfolding F_def by (rule assms(4))
  have b: "2 * S + 3 * F \<le> 2 ^ 53" unfolding S_def F_def by (rule assms(5))
  have "map (\<lambda>repo. \<bar>stargazers_count repo\<bar>) reposData = map stargazers_count reposData"
    using assms(3) by simp
  then have "sum_list (map (\<lambda>repo. \<bar>stargazers_count repo\<bar>) reposData) = S"
    by (simp only: S_def)
  moreover have "S \<le> 2 ^ 53" using S0 F0 b by linarith
  ultimately have stars: "totalStars_of reposData = Num S"
    unfolding S_def by (intro totalStars_of_exact) simp
  have "\<bar>S * 2\<bar> \<le> 2 ^ 53" using S0 F0 b by linarith
  then have m1: "num_mul (Num S) (Num 2) = Num (S * 2)"
    by (simp only: num_mul.simps as_double_exact)
  have "\<bar>F\<bar> \<le> 2 ^ 53" using S0 F0 b by linarith
  then have f: "as_double F = Num F" by (rule as_double_exact)
  have "\<bar>F * 3\<bar> \<le> 2 ^ 53" using S0 F0 b by linarith
  then have m2: "num_mul (Num F) (Num 3) = Num (F * 3)"
    by (simp only: num_mul.simps as_double_exact)
  have "\<bar>S * 2 + F * 3\<bar> \<le> 2 ^ 53" using S0 F0 b by linarith
  then have a: "num_add (Num (S * 2)) (Num (F * 3)) = Num (S * 2 + F * 3)"
    by (simp only: num_add.simps as_double_exact)
  obtain d where d: "getGitHubStats env u = Inr d" "userData d = user"
    "totalStars (stats d) = totalStars_of reposData"
    using getGitHubStats_success [OF assms(1) assms(2)] by blast
  have "contributionScore d = Num (S * 2 + F * 3)"
    by (simp only: contributionScore_def d(2) d(3) stars F_def [symmetric] f m1 m2 a)
  then have "contributionScore d = Num (2 * S + 3 * F)"
    by (simp add: mult.commute)
  then show ?thesis using d(1) unfolding S_def F_def by blast
qed

text \<open>
  The scenario of the specification: 10 followers and repositories with 5 and 3 stars
  give 46.
\<close>

theorem contribution_score_formula_witness:
  "\<exists>d. getGitHubStats (demo_runtime two_repos) ''octocat'' = Inr d
       \<and> contributionScore d = Num 46"
proof -
  have "\<forall>repo \<in> set two_repos. 0 \<le> stargazers_count repo"
    by (simp add: two_repos_def sample_repo_def)
  moreover have "0 \<le> followers octocat" by (simp add: octocat_def)
  moreover have v: "2 * sum_list (map stargazers_count two_repos) + 3 * followers octocat = 46"
    by (simp add: two_repos_def sample_repo_def octocat_def)
  moreover have "2 * sum_list (map stargazers_count two_repos) + 3 * followers octocat \<le> 2 ^ 53"
    by (simp add: v)
  ultimately show ?thesis
    using contribution_score_formula [OF demo_fetch_user demo_fetch_repos] v by metis
qed

subsection \<open>C3: the totals\<close>




subsection \<open>C4: the top languages\<close>









subsection \<open>C5: failed lookups\<close>

text \<open>
  What the page does detect. The lookup throws when a fetch rejects, when the user's
  status is not a success, when a body is not JSON, and when the repositories' body is
  JSON but not an array; \<^verbatim>\<open>handleSubmit\<close> then stores \<^verbatim>\<open>'User not found'\<close> in \<open>error\<close>,
  whatever was thrown, and leaves \<open>data\<close> alone. (No version of the page prints \<open>error\<close>.)
\<close>

lemma detected_failures:
  assumes "fetch_user env u = Rejected \<or> fetch_repos env u = Rejected
    \<or> (\<exists>body. fetch_user env u = Response False body)
    \<or> (\<exists>ok. fetch_user env u = Response ok Malformed)
    \<or> (\<exists>ok. fetch_repos env u = Response ok Malformed)
    \<or> (\<exists>ok. fetch_repos env u = Response ok (Parsed NotAnArray))"
  shows "\<exists>e. getGitHubStats env u = Inl e"
  using assms
  by (auto simp: getGitHubStats_def split: fetch_result.splits json_body.splits
      repos_json.splits)

lemma failed_lookup_state:
  assumes "username st \<noteq> []" and "getGitHubStats env (username st) = Inl e"
  shows "error (handleSubmit env st) = ''User not found'' \<and> data (handleSubmit env st) = data st
    \<and> loading (handleSubmit env st) = False"
  using assms by (simp add: handleSubmit_def)

text \<open>
  Claim C5 says that the operation fails, and \<^verbatim>\<open>'User not found'\<close> is set, whenever one of
  the two fetches fails, a reply with an error status included. The code tests
  \<^verbatim>\<open>userResponse.ok\<close> and never \<^verbatim>\<open>reposResponse.ok\<close>. When the user is found and the
  request for the repositories is answered with an error status whose body is a JSON
  array (here the empty one), the lookup succeeds: a receipt with no repositories is
  stored and no error is set.
\<close>

theorem repos_error_status_ignored:
  "fetch_user repos_error_runtime ''octocat'' = Response True (Parsed octocat)
   \<and> fetch_repos repos_error_runtime ''octocat'' = Response False (Parsed (ReposArray []))
   \<and> (\<exists>d. getGitHubStats repos_error_runtime ''octocat'' = Inr d
          \<and> userData d = octocat \<and> totalRepos (stats d) = 0
          \<and> data (handleSubmit repos_error_runtime start_state) = Some d)
   \<and> error (handleSubmit repos_error_runtime start_state) = []"
proof -
  have u: "fetch_user repos_error_runtime ''octocat'' = Response True (Parsed octocat)"
    by (simp add: repos_error_runtime_def demo_runtime_def)
  have r: "fetch_repos repos_error_runtime ''octocat''
           = Response False (Parsed (ReposArray []))"
    by (simp add: repos_error_runtime_def)
  obtain d where d: "getGitHubStats repos_error_runtime ''octocat'' = Inr d"
    "userData d = octocat" "totalRepos (stats d) = int (length ([] :: GitHubRepo list))"
    using getGitHubStats_success [OF u r] by blast
  have "data (handleSubmit repos_error_runtime start_state) = Some d"
    "error (handleSubmit repos_error_runtime start_state) = []"
    using d(1) by (simp_all add: handleSubmit_def start_state_def)
  then show ?thesis using u r d by simp
qed

subsection \<open>C6: no repositories\<close>

text \<open>
  Claim C6. When the user has no repository the lookup succeeds: the number of
  repositories, the stars, the forks and the size (in kB and in MB) are all 0, the
  histogram of weekdays is seven zeros, and the most active day is defined: it is
  \<^verbatim>\<open>'Sunday'\<close>, the name at index 0, where the maximum 0 is found first.
\<close>

theorem empty_repository_list:
  assumes "fetch_user env u = Response True (Parsed user)"
    and "fetch_repos env u = Response repos_ok (Parsed (ReposArray []))"
  shows "\<exists>d. getGitHubStats env u = Inr d
    \<and> totalRepos (stats d) = 0 \<and> totalStars (stats d) = Num 0
    \<and> totalForks (stats d) = Num 0
    \<and> totalSize_of [] = Num 0 \<and> totalSizeMB (stats d) = Num 0
    \<and> dayCount_of env [] = [0, 0, 0, 0, 0, 0, 0]
    \<and> mostActiveDay (stats d) = Some ''Sunday''"
proof -
  have dc: "dayCount_of env [] = [0, 0, 0, 0, 0, 0, 0]"
    by (simp add: dayCount_of_def pushDays_of_def eval_nat_numeral)
  have "mostActiveDay_of env [] = Some ''Sunday''"
    by (simp add: mostActiveDay_of_def dc indexOf_def array_at_def days_def)
  then show ?thesis using getGitHubStats_success [OF assms] dc
    by (auto simp: totalStars_of_def totalForks_of_def totalSize_of_def totalSizeMB_of_def
        Math_round_def)
qed

theorem empty_repository_list_witness:
  "\<exists>d. getGitHubStats (demo_runtime []) ''octocat'' = Inr d
    \<and> totalRepos (stats d) = 0 \<and> totalStars (stats d) = Num 0
    \<and> totalForks (stats d) = Num 0
    \<and> totalSizeMB (stats d) = Num 0 \<and> mostActiveDay (stats d) = Some ''Sunday''"
  using empty_repository_list [OF demo_fetch_user [of "[]"] demo_fetch_repos [of "[]"]]
  by auto

subsection \<open>C7: the recency count\<close>






subsection \<open>C8: the decorative fields\<close>

lemma array_at_random:
  assumes "0 \<le> r" and "r < 1" and "xs \<noteq> []"
  shows "\<exists>x \<in> set xs. array_at xs (Math_floor (r * real (length xs))) = Some x"
proof -
  have n: "0 < real (length xs)" using assms(3) by simp
  have "0 \<le> r * real (length xs)" using assms(1) by simp
  then have lo: "0 \<le> Math_floor (r * real (length xs))"
    by (simp add: Math_floor_def)
  have "r * real (length xs) < real (length xs)"
    using assms(2) n by simp
  then have hi: "Math_floor (r * real (length xs)) < int (length xs)"
    by (simp add: Math_floor_def floor_less_iff)
  from lo hi have "nat (Math_floor (r * real (length xs))) < length xs" by simp
  then have "xs ! nat (Math_floor (r * real (length xs))) \<in> set xs" by (rule nth_mem)
  then show ?thesis using lo hi by (simp add: array_at_def)
qed

lemma upper_char_digit36:
  "\<forall>c \<in> set ''0123456789abcdefghijklmnopqrstuvwxyz''. upper_alnum (upper_char c)"
  by code_simp

lemma fortunes_not_empty: "\<forall>x \<in> set FORTUNE_MESSAGES. x \<noteq> []"
  by (simp add: FORTUNE_MESSAGES_def)

lemma devs_not_empty: "\<forall>x \<in> set FAMOUS_DEVS. x \<noteq> []"
  by (simp add: FAMOUS_DEVS_def)

text \<open>
  What holds for every draw: the fortune is one of the five fortunes and the cashier one
  of the five names, none of them empty; the coupon code has at most six characters, all
  of them digits or capital letters, and it is empty exactly when the third draw prints
  no fraction digit, that is, when it is 0.
\<close>

lemma decorative_fields:
  assumes "0 \<le> random_fortune env" "random_fortune env < 1"
    and "0 \<le> random_cashier env" "random_cashier env < 1"
    and "set (random_coupon env) \<subseteq> set ''0123456789abcdefghijklmnopqrstuvwxyz''"
  shows "(\<exists>x \<in> set FORTUNE_MESSAGES. x \<noteq> [] \<and>
            array_at FORTUNE_MESSAGES
              (Math_floor (random_fortune env * real (length FORTUNE_MESSAGES))) = Some x)
    \<and> (\<exists>x \<in> set FAMOUS_DEVS. x \<noteq> [] \<and>
            array_at FAMOUS_DEVS
              (Math_floor (random_cashier env * real (length FAMOUS_DEVS))) = Some x)
    \<and> couponCode_of env = map upper_char (take 6 (random_coupon env))
    \<and> length (couponCode_of env) \<le> 6
    \<and> (\<forall>c \<in> set (couponCode_of env). upper_alnum c)
    \<and> (couponCode_of env = [] \<longleftrightarrow> random_coupon env = [])"
proof -
  have f: "FORTUNE_MESSAGES \<noteq> []" and d: "FAMOUS_DEVS \<noteq> []"
    by (simp_all add: FORTUNE_MESSAGES_def FAMOUS_DEVS_def)
  have c: "couponCode_of env = map upper_char (take 6 (random_coupon env))"
    by (cases "random_coupon env = []")
       (simp_all add: couponCode_of_def toString36_def substring_def toUpperCase_def Let_def
          min_def max_def)
  have "set (take 6 (random_coupon env)) \<subseteq> set ''0123456789abcdefghijklmnopqrstuvwxyz''"
    using assms(5) set_take_subset by (rule order_trans [rotated])
  then have a: "\<forall>c \<in> set (couponCode_of env). upper_alnum c"
    unfolding c using upper_char_digit36 by auto
  show ?thesis
    using array_at_random [OF assms(1) assms(2) f] array_at_random [OF assms(3) assms(4) d]
      fortunes_not_empty devs_not_empty c a
    by auto
qed

text \<open>
  Claim C8 says that for every possible draw the coupon code is a non-empty string of
  digits and capital letters. \<^verbatim>\<open>Math.random()\<close> may return 0, which prints as \<^verbatim>\<open>"0"\<close> in
  radix 36; \<^verbatim>\<open>substring(2, 8)\<close> of it is the empty string, and so is the coupon code.
\<close>

theorem coupon_code_empty_for_draw_zero:
  "random_coupon zero_draw_runtime = []
   \<and> toString36 (random_coupon zero_draw_runtime) = ''0''
   \<and> couponCode_of zero_draw_runtime = []
   \<and> (\<exists>d. getGitHubStats zero_draw_runtime ''octocat'' = Inr d \<and> couponCode (stats d) = [])"
proof -
  have z: "random_coupon zero_draw_runtime = []"
    by (simp add: zero_draw_runtime_def)
  have c: "couponCode_of zero_draw_runtime = []"
    by (simp add: couponCode_of_def z toString36_def substring_def toUpperCase_def)
  have "fetch_user zero_draw_runtime ''octocat'' = Response True (Parsed octocat)"
    "fetch_repos zero_draw_runtime ''octocat'' = Response True (Parsed (ReposArray two_repos))"
    by (simp_all add: zero_draw_runtime_def demo_runtime_def)
  from getGitHubStats_success [OF this]
  have "\<exists>d. getGitHubStats zero_draw_runtime ''octocat'' = Inr d \<and> couponCode (stats d) = []"
    using c by auto
  then show ?thesis using z c by (simp add: toString36_def)
qed

subsection \<open>C9: the name of the downloaded image\<close>

text \<open>
  Claim C9. After a lookup that succeeded with the result \<open>d\<close>, the download is named
  \<^verbatim>\<open>github-receipt-\<close>, the handle, \<^verbatim>\<open>.png\<close>, where the handle is the \<open>login\<close> of the result (the
  spelling the API returned); \<^verbatim>\<open>user\<close> stands in for it only when the result holds no
  handle, that is, an empty one.
\<close>

theorem download_named_after_login:
  assumes "username st \<noteq> []" and "getGitHubStats env (username st) = Inr d"
  shows "data (handleSubmit env st) = Some d
    \<and> (login (userData d) \<noteq> [] \<longrightarrow>
         handleDownload (handleSubmit env st)
           = Some (''github-receipt-'' @ login (userData d) @ ''.png''))
    \<and> (login (userData d) = [] \<longrightarrow>
         handleDownload (handleSubmit env st) = Some ''github-receipt-user.png'')"
  using assms
  by (simp add: handleSubmit_def handleDownload_def receiptRef_current_def
      download_handle_def)

theorem download_named_after_login_witness:
  "handleDownload (handleSubmit (demo_runtime two_repos) start_state)
     = Some ''github-receipt-octocat.png''"
proof -
  obtain d where d: "getGitHubStats (demo_runtime two_repos) ''octocat'' = Inr d"
    and u: "userData d = octocat"
    using getGitHubStats_success [OF demo_fetch_user demo_fetch_repos] by blast
  have "username start_state \<noteq> []" "username start_state = ''octocat''"
    by (simp_all add: start_state_def)
  with d have "getGitHubStats (demo_runtime two_repos) (username start_state) = Inr d"
    by simp
  from download_named_after_login [OF \<open>username start_state \<noteq> []\<close> this]
  show ?thesis by (simp add: u octocat_def)
qed

subsection \<open>C10: no language at all\<close>

text \<open>
  Claim C10. When no repository has a primary language (as when there is no repository),
  the lookup returns the empty string as \<open>topLanguages\<close> and the page prints \<^verbatim>\<open>NONE\<close>.
\<close>

theorem no_language_shows_NONE:
  assumes "fetch_user env u = Response True (Parsed user)"
    and "fetch_repos env u = Response repos_ok (Parsed (ReposArray reposData))"
    and "\<forall>repo \<in> set reposData. language repo = None"
  shows "\<exists>d. getGitHubStats env u = Inr d \<and> topLanguages (stats d) = []
              \<and> topLanguages_shown d = ''NONE''"
proof -
  have "filter (\<lambda>lang. lang \<noteq> None) (map language reposData) = []"
    using assms(3) by (simp add: filter_empty_conv)
  then have "languages_of reposData = []"
    by (simp add: languages_of_def)
  then have "topLanguages_of env reposData = []"
    by (simp add: topLanguages_of_def topLanguageList_of_def sortedEntries_of_def
        langCount_of_def Object_entries_def Array_sort_def consistent_comparator_def
        insertion_sort_def)
  then show ?thesis
    using getGitHubStats_success [OF assms(1) assms(2)]
    by (auto simp: topLanguages_shown_def)
qed

theorem no_language_shows_NONE_witness:
  "\<exists>d. getGitHubStats (demo_runtime no_language_repos) ''octocat'' = Inr d
       \<and> topLanguages (stats d) = [] \<and> topLanguages_shown d = ''NONE''"
proof -
  have "\<forall>repo \<in> set no_language_repos. language repo = None"
    by (simp add: no_language_repos_def sample_repo_def)
  then show ?thesis
    by (rule no_language_shows_NONE [OF demo_fetch_user demo_fetch_repos])
qed

end
